theory Spec2Isabelle
  imports Main
begin

section \<open>Build configuration, exceptions and assertions\<close>

text \<open>
  The header is compiled under two preprocessor switches. \<open>EWS_ASSERT(expr)\<close> expands to
  \<open>((void)0)\<close> unless \<open>NDEBUG\<close> is undefined and \<open>EWS_ENABLE_ASSERTS\<close> is defined, in which
  case it is \<open>assert(expr)\<close>. The same \<open>NDEBUG\<close> switch guards two transport options in
  \<open>http_request::send\<close>.
\<close>

record build_config =
  NDEBUG :: bool
  EWS_ENABLE_ASSERTS :: bool

text \<open>
  The exceptions that travel through this header. \<open>curl_error\<close> and \<open>parse_error\<close> are the two
  classes the header declares (both derive from \<open>std::runtime_error\<close>);
  \<open>rapidxml_parse_error\<close> is the parser library's \<open>rapidxml::parse_error\<close>; \<open>bad_alloc\<close> is
  \<open>std::bad_alloc\<close>; \<open>std_exception\<close> stands for any other class derived from
  \<open>std::exception\<close>, and \<open>foreign_exception\<close> for a thrown object of a type that is not
  derived from it (what a handler \<open>catch (std::exception&)\<close> does not match).
\<close>

datatype exn =
    curl_error string
  | parse_error string
  | rapidxml_parse_error string
  | bad_alloc
  | std_exception string
  | foreign_exception

fun is_std_exception :: "exn \<Rightarrow> bool" where
  "is_std_exception foreign_exception = False"
| "is_std_exception _ = True"

text \<open>
  How a call can fail: an exception propagates (\<open>Throw\<close>), the process is ended by
  \<open>abort\<close> or \<open>std::terminate\<close> (\<open>Abort\<close>), or the program has left the language's defined
  behaviour (\<open>Undefined\<close>: indexing an empty vector, dereferencing a null pointer).
\<close>

datatype failure = Throw exn | Abort | Undefined

definition asserts_enabled :: "build_config \<Rightarrow> bool" where
  "asserts_enabled cfg = (\<not> NDEBUG cfg \<and> EWS_ENABLE_ASSERTS cfg)"

definition EWS_ASSERT :: "build_config \<Rightarrow> bool \<Rightarrow> failure option" where
  "EWS_ASSERT cfg expr = (if asserts_enabled cfg \<and> \<not> expr then Some Abort else None)"

section \<open>The scope guard \<open>on_scope_exit\<close>\<close>

text \<open>
  A callable of type \<open>void(void)\<close> acts on the program state \<open>'s\<close> it has captured by
  reference: it returns the state it leaves behind and the exception it throws, if any.
  The guard's only member is \<open>func_\<close>, a \<open>std::function<void(void)>\<close>, which is either
  empty or holds a callable. A name cannot end with an underscore here, so the members
  \<open>func_\<close>, \<open>data_\<close>, \<open>doc_\<close>, \<open>code_\<close>, \<open>parsed_\<close>, \<open>handle_\<close> and \<open>headers_\<close> are written
  without it.
\<close>

type_synonym 's callable = "'s \<Rightarrow> exn option \<times> 's"

record 's on_scope_exit =
  func :: "'s callable option"

text \<open>
  The constructor is a function-try-block around the member initialiser
  \<open>func_(std::move(destructor_function))\<close>. The first argument says what that initialiser
  throws (\<open>None\<close>: nothing). The handler \<open>catch (std::exception&)\<close> calls
  \<open>destructor_function()\<close>; leaving the handler of a constructor's function-try-block
  rethrows the caught exception, unless the call in the handler has thrown one of its own.
  An exception the handler does not match propagates at once.
\<close>

definition on_scope_exit_ctor ::
  "exn option \<Rightarrow> 's callable \<Rightarrow> 's \<Rightarrow> (exn + 's on_scope_exit) \<times> 's" where
  "on_scope_exit_ctor init_throws destructor_function s =
     (case init_throws of
        None \<Rightarrow> (Inr \<lparr>func = Some destructor_function\<rparr>, s)
      | Some e \<Rightarrow>
          if is_std_exception e then
            (case destructor_function s of
               (None, s') \<Rightarrow> (Inl e, s')
             | (Some e', s') \<Rightarrow> (Inl e', s'))
          else (Inl e, s))"

text \<open>
  The destructor: \<open>if (func_) { try { func_(); } catch (std::exception&) { EWS_ASSERT(false); } }\<close>.
  An exception the handler does not match leaves a destructor, which is \<open>noexcept\<close>, so
  \<open>std::terminate\<close> ends the process.
\<close>

definition on_scope_exit_dtor ::
  "build_config \<Rightarrow> 's on_scope_exit \<Rightarrow> 's \<Rightarrow> failure option \<times> 's" where
  "on_scope_exit_dtor cfg g s =
     (case func g of
        None \<Rightarrow> (None, s)
      | Some f \<Rightarrow>
          (case f s of
             (None, s') \<Rightarrow> (None, s')
           | (Some e, s') \<Rightarrow>
               if is_std_exception e then (EWS_ASSERT cfg False, s') else (Some Abort, s')))"

definition release :: "'s on_scope_exit \<Rightarrow> 's on_scope_exit" where
  "release g = g\<lparr>func := None\<rparr>"

text \<open>
  A block that declares a guard first, as \<open>http_response::payload\<close> and the test suite do:
  \<open>{ on_scope_exit guard(f); body }\<close>. The body is left normally, by \<open>return\<close>, or by a
  failure. It has the guard in scope and hands it back, since \<open>release\<close> is the one member
  that changes it. When the body is left by \<open>Abort\<close> or \<open>Undefined\<close> no destructor runs;
  otherwise the guard is destroyed on the way out, and a failure of the destructor replaces
  the body's completion.
\<close>

datatype 'v completion = Normal | Return 'v | Fail failure

fun unwinds :: "'v completion \<Rightarrow> bool" where
  "unwinds (Fail Abort) = False"
| "unwinds (Fail Undefined) = False"
| "unwinds _ = True"

definition guarded_scope ::
  "build_config \<Rightarrow> exn option \<Rightarrow> 's callable \<Rightarrow>
   ('s on_scope_exit \<Rightarrow> 's \<Rightarrow> 'v completion \<times> 's on_scope_exit \<times> 's) \<Rightarrow>
   's \<Rightarrow> 'v completion \<times> 's" where
  "guarded_scope cfg init_throws f body s =
     (case on_scope_exit_ctor init_throws f s of
        (Inl e, s0) \<Rightarrow> (Fail (Throw e), s0)
      | (Inr g, s0) \<Rightarrow>
          (case body g s0 of
             (c, g', s1) \<Rightarrow>
               if unwinds c then
                 (case on_scope_exit_dtor cfg g' s1 of
                    (Some fl, s2) \<Rightarrow> (Fail fl, s2)
                  | (None, s2) \<Rightarrow> (c, s2))
               else (c, s1)))"

section \<open>The response wrapper \<open>http_response\<close>\<close>

text \<open>
  \<open>rapidxml::xml_document<char>\<close> is the parser library's tree; a default-constructed
  document has no nodes. The library's \<open>parse<0>\<close> is a parameter of the model: given the
  buffer it reads, it says what it throws, the tree it has built when it stops, and what
  it has left in the buffer (it parses in place, overwriting the text).
\<close>

datatype xml_node = xml_node string string "(string \<times> string) list" "xml_node list"

type_synonym xml_document = "xml_node list"

record parse_outcome =
  thrown :: "exn option"
  tree :: xml_document
  text_after :: "char list"

type_synonym xml_parser = "char list \<Rightarrow> parse_outcome"

record http_response =
  data :: "char list"
  doc :: xml_document
  code :: int
  parsed :: bool

definition http_response_ctor :: "build_config \<Rightarrow> int \<Rightarrow> char list \<Rightarrow> failure + http_response" where
  "http_response_ctor cfg c d =
     (let r = \<lparr>data = d, doc = [], code = c, parsed = False\<rparr> in
      case EWS_ASSERT cfg (data r \<noteq> []) of
        Some fl \<Rightarrow> Inl fl
      | None \<Rightarrow> Inr r)"

text \<open>
  \<open>parse\<close> hands \<open>&data_[0]\<close> to the parser, which is undefined for an empty vector, and
  turns a \<open>rapidxml::parse_error\<close> into a \<open>parse_error\<close> with the same \<open>what()\<close>. Any other
  exception of the parser passes through.
\<close>

definition parse :: "xml_parser \<Rightarrow> http_response \<Rightarrow> failure option \<times> http_response" where
  "parse P r =
     (if data r = [] then (Some Undefined, r)
      else
        (let out = P (data r);
             r' = r\<lparr>data := text_after out, doc := tree out\<rparr>
         in case thrown out of
              None \<Rightarrow> (None, r')
            | Some (rapidxml_parse_error what) \<Rightarrow> (Some (Throw (parse_error what)), r')
            | Some e \<Rightarrow> (Some (Throw e), r')))"

text \<open>
  \<open>payload\<close>: \<open>if (!parsed_) { auto set_parsed = on_scope_exit([&]() { parsed_ = true; });
  parse(); } return doc_;\<close>. The closure holds one reference and setting a flag throws
  nothing, so the guard's initialiser is taken not to throw here.
\<close>

definition payload ::
  "build_config \<Rightarrow> xml_parser \<Rightarrow> http_response \<Rightarrow> (failure + xml_document) \<times> http_response" where
  "payload cfg P r =
     (if \<not> parsed r then
        (case guarded_scope cfg None (\<lambda>r. (None, r\<lparr>parsed := True\<rparr>))
                (\<lambda>set_parsed r.
                   case parse P r of
                     (None, r') \<Rightarrow> (Normal :: unit completion, set_parsed, r')
                   | (Some fl, r') \<Rightarrow> (Fail fl, set_parsed, r')) r of
           (Fail fl, r') \<Rightarrow> (Inl fl, r')
         | (_, r') \<Rightarrow> (Inr (doc r'), r'))
      else (Inr (doc r), r))"

section \<open>The transport: libcurl\<close>

text \<open>
  libcurl is not part of this header; the model takes it as a parameter and records what
  the header asks of it. The result codes are \<open>curl.h\<close>'s: \<open>CURLE_OK\<close> is 0,
  \<open>CURLE_FAILED_INIT\<close> is 2, \<open>CURLE_WRITE_ERROR\<close> is 23, and \<open>CURLAUTH_NTLM\<close> is
  \<open>((unsigned long)1) << 3\<close>.
\<close>

definition CURLE_OK :: nat where
  "CURLE_OK = 0"

definition CURLE_FAILED_INIT :: nat where
  "CURLE_FAILED_INIT = 2"

definition CURLE_WRITE_ERROR :: nat where
  "CURLE_WRITE_ERROR = 23"

definition CURLAUTH_NTLM :: int where
  "CURLAUTH_NTLM = 8"

datatype CURLoption =
    CURLOPT_URL
  | CURLOPT_POST
  | CURLOPT_USERPWD
  | CURLOPT_HTTPAUTH
  | CURLOPT_VERBOSE
  | CURLOPT_USERAGENT
  | CURLOPT_POSTFIELDS
  | CURLOPT_POSTFIELDSIZE
  | CURLOPT_HTTPHEADER
  | CURLOPT_WRITEFUNCTION
  | CURLOPT_WRITEDATA
  | CURLOPT_SSL_VERIFYPEER

text \<open>
  What the header passes as an option's argument: the characters of a string
  (\<open>s.c_str()\<close>), a number, the header list (\<open>headers_.get()\<close>), the write callback, or the
  address of the local response buffer.
\<close>

datatype option_value =
    c_str string
  | long_val int
  | slist "string list"
  | callback_ptr
  | response_data_ptr

text \<open>
  The memory a \<open>std::vector<char>\<close> sees while it grows: the largest block the allocator
  can hand out at that moment, and the capacity a full vector asks for when an element is
  appended (a number above the current capacity, fixed by the standard library).
\<close>

record memory =
  largest_block :: nat
  growth :: "nat \<Rightarrow> nat"

text \<open>
  One call of the write callback by the transport: the block at \<open>ptr\<close>, the arguments
  \<open>size\<close> and \<open>nmemb\<close>, and the memory at that moment. A transfer is the calls the transport
  makes, the code \<open>curl_easy_perform\<close> returns when the callback has accepted them all, and
  what \<open>CURLINFO_RESPONSE_CODE\<close> reports afterwards (\<open>None\<close>: \<open>curl_easy_getinfo\<close> fails and
  writes nothing).
\<close>

record delivery =
  ptr :: "char list"
  sz :: nat
  nmemb :: nat
  mem :: memory

record transfer =
  deliveries :: "delivery list"
  result :: nat
  info_response_code :: "int option"

type_synonym CURL = "(CURLoption \<times> option_value) list"

record libcurl =
  easy_init :: bool
  easy_setopt :: "CURLoption \<Rightarrow> option_value \<Rightarrow> nat"
  easy_strerror :: "nat \<Rightarrow> string"
  easy_transfer :: "CURL \<Rightarrow> transfer"

text \<open>
  A session handle is the list of the options set on it, in the order they were set.
  \<open>curl_easy_setopt\<close> returns the library's code and keeps the option when the code is
  \<open>CURLE_OK\<close>.
\<close>

definition curl_easy_setopt :: "libcurl \<Rightarrow> CURL \<Rightarrow> CURLoption \<Rightarrow> option_value \<Rightarrow> nat \<times> CURL" where
  "curl_easy_setopt lc h option arg =
     (let rc = easy_setopt lc option arg
      in (rc, if rc = CURLE_OK then h @ [(option, arg)] else h))"

definition make_error :: "libcurl \<Rightarrow> string \<Rightarrow> nat \<Rightarrow> exn" where
  "make_error lc msg rescode =
     (let reason = easy_strerror lc rescode
      in curl_error (msg @ '': '' @ [CHR 0x27] @ reason @ [CHR 0x27]))"

definition curl_ptr_ctor :: "libcurl \<Rightarrow> failure + CURL" where
  "curl_ptr_ctor lc =
     (if \<not> easy_init lc then Inl (Throw (curl_error ''Could not start libcurl session''))
      else Inr [])"

section \<open>The request builder \<open>http_request\<close>\<close>

record http_request =
  handle :: CURL
  headers :: "string list"

text \<open>The enumeration \<open>http_request::method\<close>, whose one value is \<open>POST\<close>.\<close>

datatype request_method = POST

text \<open>Sequencing of calls that may fail: the first failure ends the sequence.\<close>

fun and_then :: "'e + 'a \<Rightarrow> ('a \<Rightarrow> 'e + 'b) \<Rightarrow> 'e + 'b" where
  "and_then (Inl e) f = Inl e"
| "and_then (Inr x) f = f x"

definition set_option ::
  "libcurl \<Rightarrow> CURLoption \<Rightarrow> option_value \<Rightarrow> http_request \<Rightarrow> failure + http_request" where
  "set_option lc option arg req =
     (case curl_easy_setopt lc (handle req) option arg of
        (retcode, h) \<Rightarrow>
          if retcode = CURLE_OK then Inr (req\<lparr>handle := h\<rparr>)
          else if retcode = CURLE_FAILED_INIT then
            Inl (Throw (make_error lc ''curl_easy_setopt: unsupported option'' retcode))
          else
            Inl (Throw (make_error lc ''curl_easy_setopt: failed setting option'' retcode)))"

definition http_request_ctor :: "libcurl \<Rightarrow> string \<Rightarrow> failure + http_request" where
  "http_request_ctor lc url =
     and_then (curl_ptr_ctor lc)
       (\<lambda>h. set_option lc CURLOPT_URL (c_str url) \<lparr>handle = h, headers = []\<rparr>)"

definition set_method :: "libcurl \<Rightarrow> request_method \<Rightarrow> http_request \<Rightarrow> failure + http_request" where
  "set_method lc m req = set_option lc CURLOPT_POST (long_val 1) req"

definition set_content_type :: "string \<Rightarrow> http_request \<Rightarrow> http_request" where
  "set_content_type content_type req =
     (let str = ''Content-Type: '' @ content_type
      in req\<lparr>headers := headers req @ [str]\<rparr>)"

section \<open>Credentials\<close>

text \<open>
  \<open>ntlm_credentials(username, password, domain)\<close> stores its three arguments. \<open>certify\<close>
  takes a pointer to the request, which may be null: the assertion guards it, and without
  the assertion the calls through the null pointer are undefined.
\<close>

datatype ntlm_credentials = ntlm_credentials string string string

fun certify ::
  "build_config \<Rightarrow> libcurl \<Rightarrow> ntlm_credentials \<Rightarrow> http_request option \<Rightarrow> failure + http_request" where
  "certify cfg lc (ntlm_credentials username password domain) request =
     (case EWS_ASSERT cfg (request \<noteq> None) of
        Some fl \<Rightarrow> Inl fl
      | None \<Rightarrow>
          (case request of
             None \<Rightarrow> Inl Undefined
           | Some req \<Rightarrow>
               (let login = domain @ [CHR 0x5C] @ username @ '':'' @ password
                in and_then (set_option lc CURLOPT_USERPWD (c_str login) req)
                     (\<lambda>req. set_option lc CURLOPT_HTTPAUTH (long_val CURLAUTH_NTLM) req))))"

definition set_credentials ::
  "build_config \<Rightarrow> libcurl \<Rightarrow> ntlm_credentials \<Rightarrow> http_request \<Rightarrow> failure + http_request" where
  "set_credentials cfg lc creds req = certify cfg lc creds (Some req)"

section \<open>Sending a request\<close>

text \<open>
  The response buffer is a \<open>std::vector<char>\<close>: its elements and its capacity.
  \<open>reserve(n)\<close> does nothing when the capacity is already \<open>n\<close> or more, and otherwise
  allocates a block of \<open>n\<close> or throws \<open>std::bad_alloc\<close>. \<open>push_back\<close> (through
  \<open>std::back_inserter\<close>, and \<open>emplace_back\<close>) appends in place while there is room and
  otherwise moves the elements to a larger block, which it must allocate.
\<close>

record char_vector =
  elems :: "char list"
  capacity :: nat

definition reserve :: "memory \<Rightarrow> nat \<Rightarrow> char_vector \<Rightarrow> exn + char_vector" where
  "reserve m n v =
     (if n \<le> capacity v then Inr v
      else if n \<le> largest_block m then Inr (v\<lparr>capacity := n\<rparr>)
      else Inl bad_alloc)"

definition push_back :: "memory \<Rightarrow> char \<Rightarrow> char_vector \<Rightarrow> exn + char_vector" where
  "push_back m c v =
     (if length (elems v) < capacity v then Inr (v\<lparr>elems := elems v @ [c]\<rparr>)
      else
        (let n = growth m (capacity v)
         in if n \<le> largest_block m then Inr \<lparr>elems = elems v @ [c], capacity = n\<rparr>
            else Inl bad_alloc))"

fun copy_back_inserter :: "memory \<Rightarrow> char list \<Rightarrow> char_vector \<Rightarrow> exn + char_vector" where
  "copy_back_inserter m [] v = Inr v"
| "copy_back_inserter m (c # cs) v =
     (case push_back m c v of
        Inl e \<Rightarrow> Inl e
      | Inr v' \<Rightarrow> copy_back_inserter m cs v')"

text \<open>
  The write callback of \<open>send\<close>. Only the call of \<open>reserve\<close> stands inside the
  \<open>try\<close> block, whose handler \<open>catch (std::bad_alloc&)\<close> returns 0; \<open>std::copy\<close> and
  \<open>emplace_back\<close> follow it. Reading \<open>realsize\<close> characters from a shorter block is
  undefined. The product \<open>size * nmemb\<close> is taken not to wrap, the block at \<open>ptr\<close> being
  that long.
\<close>

definition write_callback ::
  "memory \<Rightarrow> char list \<Rightarrow> nat \<Rightarrow> nat \<Rightarrow> char_vector \<Rightarrow> failure + nat \<times> char_vector" where
  "write_callback m p size_arg nmemb_arg buf =
     (let realsize = size_arg * nmemb_arg in
      case reserve m (realsize + 1) buf of
        Inl e \<Rightarrow> (if e = bad_alloc then Inr (0, buf) else Inl (Throw e))
      | Inr buf1 \<Rightarrow>
          if length p < realsize then Inl Undefined
          else
            (case copy_back_inserter m (take realsize p) buf1 of
               Inl e \<Rightarrow> Inl (Throw e)
             | Inr buf2 \<Rightarrow>
                 (case push_back m (CHR 0x00) buf2 of
                    Inl e \<Rightarrow> Inl (Throw e)
                  | Inr buf3 \<Rightarrow> Inr (realsize, buf3))))"

text \<open>
  \<open>curl_easy_perform\<close>, by libcurl's contract for \<open>CURLOPT_WRITEFUNCTION\<close>: the transport
  hands each block to the callback; a return value other than \<open>size * nmemb\<close> aborts the
  transfer with \<open>CURLE_WRITE_ERROR\<close>. An exception that leaves the callback propagates.
\<close>

fun deliver :: "delivery list \<Rightarrow> nat \<Rightarrow> char_vector \<Rightarrow> failure + nat \<times> char_vector" where
  "deliver [] rc buf = Inr (rc, buf)"
| "deliver (d # ds) rc buf =
     (case write_callback (mem d) (ptr d) (sz d) (nmemb d) buf of
        Inl fl \<Rightarrow> Inl fl
      | Inr (n, buf') \<Rightarrow>
          if n = sz d * nmemb d then deliver ds rc buf'
          else Inr (CURLE_WRITE_ERROR, buf'))"

definition curl_easy_perform :: "libcurl \<Rightarrow> CURL \<Rightarrow> char_vector \<Rightarrow> failure + nat \<times> char_vector" where
  "curl_easy_perform lc h buf =
     (let t = easy_transfer lc h in deliver (deliveries t) (result t) buf)"

definition curl_easy_getinfo_response_code :: "libcurl \<Rightarrow> CURL \<Rightarrow> int \<Rightarrow> int" where
  "curl_easy_getinfo_response_code lc h response_code =
     (case info_response_code (easy_transfer lc h) of
        None \<Rightarrow> response_code
      | Some c \<Rightarrow> c)"

text \<open>
  \<open>send\<close>. The options set under \<open>#ifndef NDEBUG\<close> are \<open>CURLOPT_VERBOSE\<close> and
  \<open>CURLOPT_SSL_VERIFYPEER\<close>. The request object is not returned: what \<open>send\<close> leaves on
  the handle is what the transfer was given.
\<close>

definition send :: "build_config \<Rightarrow> libcurl \<Rightarrow> string \<Rightarrow> http_request \<Rightarrow> failure + http_response" where
  "send cfg lc request req =
     and_then (if \<not> NDEBUG cfg then set_option lc CURLOPT_VERBOSE (long_val 1) req else Inr req) (\<lambda>req.
     and_then (set_option lc CURLOPT_USERAGENT (c_str ''libcurl-agent/1.0'') req) (\<lambda>req.
     and_then (set_option lc CURLOPT_POSTFIELDS (c_str request) req) (\<lambda>req.
     and_then (set_option lc CURLOPT_POSTFIELDSIZE (long_val (int (length request))) req) (\<lambda>req.
     and_then (set_option lc CURLOPT_HTTPHEADER (slist (headers req)) req) (\<lambda>req.
     (let response_data = \<lparr>elems = [], capacity = 0\<rparr> in
     and_then (set_option lc CURLOPT_WRITEFUNCTION callback_ptr req) (\<lambda>req.
     and_then (set_option lc CURLOPT_WRITEDATA response_data_ptr req) (\<lambda>req.
     and_then (if \<not> NDEBUG cfg then set_option lc CURLOPT_SSL_VERIFYPEER (long_val 0) req else Inr req) (\<lambda>req.
     (case curl_easy_perform lc (handle req) response_data of
        Inl fl \<Rightarrow> Inl fl
      | Inr (retcode, response_data) \<Rightarrow>
          if retcode \<noteq> 0 then Inl (Throw (make_error lc ''curl_easy_perform'' retcode))
          else
            (let response_code = curl_easy_getinfo_response_code lc (handle req) 0
             in http_response_ctor cfg response_code (elems response_data))))))))))))"

section \<open>The envelope composer \<open>make_raw_soap_request\<close>\<close>

text \<open>
  The raw string literal that opens the envelope, line by line; it ends with the closing
  angle bracket of the root element's start tag, without a line break.
\<close>

definition envelope_literal :: string where
  \<open>envelope_literal =
     ''<?xml version="1.0" encoding="utf-8"?>'' @ [CHR 0x0A] @
     ''<soap:Envelope'' @ [CHR 0x0A] @
     ''    xmlns:xsi="http://www.w3.org/2001/XMLSchema-instance"'' @ [CHR 0x0A] @
     ''    xmlns:xsd="http://www.w3.org/2001/XMLSchema"'' @ [CHR 0x0A] @
     ''    xmlns:soap="http://schemas.xmlsoap.org/soap/envelope/"'' @ [CHR 0x0A] @
     ''    xmlns:m="http://schemas.microsoft.com/exchange/services/2006/messages"'' @ [CHR 0x0A] @
     ''    xmlns:t="http://schemas.microsoft.com/exchange/services/2006/types"'' @ [CHR 0x0A] @
     ''    >''\<close>

text \<open>
  \<open>request_stream << x\<close> appends \<open>x\<close> to what the stream holds; the range-based
  \<open>for\<close> over \<open>soap_headers\<close> is a left fold of that.
\<close>

definition make_raw_soap_request ::
  "build_config \<Rightarrow> libcurl \<Rightarrow> string \<Rightarrow> string \<Rightarrow> string \<Rightarrow> string \<Rightarrow> string \<Rightarrow> string list \<Rightarrow>
   failure + http_response" where
  "make_raw_soap_request cfg lc url username password domain soap_body soap_headers =
     and_then (http_request_ctor lc url) (\<lambda>request.
     and_then (set_method lc POST request) (\<lambda>request.
     (let request = set_content_type ''text/xml; charset=utf-8'' request;
          creds = ntlm_credentials username password domain
      in
     and_then (set_credentials cfg lc creds request) (\<lambda>request.
     (let request_stream = envelope_literal;
          request_stream =
            (if soap_headers \<noteq> [] then
               (let request_stream = request_stream @ ''<soap:Header>'' @ [CHR 0x0A];
                    request_stream = foldl (\<lambda>stream header. stream @ header) request_stream soap_headers
                in request_stream @ ''</soap:Header>'' @ [CHR 0x0A])
             else request_stream);
          request_stream = request_stream @ ''<soap:Body>'' @ [CHR 0x0A];
          request_stream = request_stream @ soap_body;
          request_stream = request_stream @ ''</soap:Body>'' @ [CHR 0x0A];
          request_stream = request_stream @ ''</soap:Envelope>'' @ [CHR 0x0A]
      in send cfg lc request_stream request)))))"

subsection \<open>The envelope as the specification describes it\<close>

text \<open>
  The specification's words, part by part: the XML declaration; the root element with its
  five namespace declarations; a header section, present exactly when there are header
  fragments, holding them in order; a body section holding the body fragment; the closing
  tag of the root element. Each part but the root's start tag ends with a line break, and
  so do the start tags of the header and body sections.
\<close>

definition spec_xml_declaration :: string where
  \<open>spec_xml_declaration = ''<?xml version="1.0" encoding="utf-8"?>'' @ [CHR 0x0A]\<close>

definition spec_namespace_declarations :: "(string \<times> string) list" where
  "spec_namespace_declarations =
     [(''xsi'', ''http://www.w3.org/2001/XMLSchema-instance''),
      (''xsd'', ''http://www.w3.org/2001/XMLSchema''),
      (''soap'', ''http://schemas.xmlsoap.org/soap/envelope/''),
      (''m'', ''http://schemas.microsoft.com/exchange/services/2006/messages''),
      (''t'', ''http://schemas.microsoft.com/exchange/services/2006/types'')]"

definition spec_root_start_tag :: string where
  "spec_root_start_tag =
     ''<soap:Envelope'' @ [CHR 0x0A] @
     concat (map (\<lambda>(prefix, uri).
        ''    xmlns:'' @ prefix @ ''='' @ [CHR 0x22] @ uri @ [CHR 0x22] @ [CHR 0x0A])
        spec_namespace_declarations) @
     ''    >''"

definition spec_header_section :: "string list \<Rightarrow> string" where
  "spec_header_section soap_headers =
     (if soap_headers = [] then []
      else ''<soap:Header>'' @ [CHR 0x0A] @ concat soap_headers @ ''</soap:Header>'' @ [CHR 0x0A])"

definition spec_body_section :: "string \<Rightarrow> string" where
  "spec_body_section soap_body =
     ''<soap:Body>'' @ [CHR 0x0A] @ soap_body @ ''</soap:Body>'' @ [CHR 0x0A]"

definition spec_envelope :: "string \<Rightarrow> string list \<Rightarrow> string" where
  "spec_envelope soap_body soap_headers =
     spec_xml_declaration @ spec_root_start_tag @ spec_header_section soap_headers @
     spec_body_section soap_body @ ''</soap:Envelope>'' @ [CHR 0x0A]"

section \<open>Test doubles\<close>

text \<open>
  Fixtures for the concrete instances below. \<open>stub_parser\<close> stands in for the XML parser:
  it accepts a buffer that starts with an opening angle bracket, building one node and
  overwriting every closing angle bracket with a terminator, and rejects anything else
  with the parser library's message for that case; \<open>rejecting_parser\<close> rejects
  every buffer and empties it. \<open>stub_curl\<close> stands in for libcurl: it
  accepts every option and performs the transfer it is given, whatever the options;
  \<open>picky_curl\<close> rejects two options, each in its own way. A \<open>chunk\<close> is a delivery of
  the given bytes with \<open>size\<close> 1, as libcurl makes them.
\<close>

definition stub_parser :: xml_parser where
  "stub_parser buf =
     (case buf of
        [] \<Rightarrow> \<lparr>thrown = None, tree = [], text_after = buf\<rparr>
      | c # cs \<Rightarrow>
          if c = CHR ''<'' then
            \<lparr>thrown = None,
             tree = [xml_node (takeWhile (\<lambda>c. c \<noteq> CHR ''/'' \<and> c \<noteq> CHR ''>'') cs) [] [] []],
             text_after = map (\<lambda>c. if c = CHR ''>'' then CHR 0x00 else c) buf\<rparr>
          else
            \<lparr>thrown = Some (rapidxml_parse_error ''expected <''), tree = [], text_after = buf\<rparr>)"

definition rejecting_parser :: xml_parser where
  "rejecting_parser buf =
     \<lparr>thrown = Some (rapidxml_parse_error ''expected <''), tree = [], text_after = []\<rparr>"

definition stub_strerror :: "nat \<Rightarrow> string" where
  "stub_strerror rc =
     (if rc = 0 then ''No error''
      else if rc = 2 then ''Failed initialization''
      else if rc = 23 then ''Failed writing received data to disk/application''
      else if rc = 28 then ''Timeout was reached''
      else if rc = 43 then ''A libcurl function was given a bad argument''
      else ''Unknown error'')"

definition stub_curl :: "transfer \<Rightarrow> libcurl" where
  "stub_curl t =
     \<lparr>easy_init = True,
      easy_setopt = (\<lambda>option arg. CURLE_OK),
      easy_strerror = stub_strerror,
      easy_transfer = (\<lambda>h. t)\<rparr>"

definition plenty :: memory where
  "plenty = \<lparr>largest_block = 1000000, growth = (\<lambda>n. 2 * n + 1)\<rparr>"

definition exhausted :: memory where
  "exhausted = \<lparr>largest_block = 0, growth = (\<lambda>n. 2 * n + 1)\<rparr>"

definition release_build :: build_config where
  "release_build = \<lparr>NDEBUG = True, EWS_ENABLE_ASSERTS = False\<rparr>"

definition checked_build :: build_config where
  "checked_build = \<lparr>NDEBUG = False, EWS_ENABLE_ASSERTS = True\<rparr>"

definition well_formed_response :: http_response where
  "well_formed_response = \<lparr>data = ''<a/>'', doc = [], code = 200, parsed = False\<rparr>"

definition malformed_response :: http_response where
  "malformed_response = \<lparr>data = ''a/>'', doc = [], code = 200, parsed = False\<rparr>"

definition picky_curl :: libcurl where
  "picky_curl =
     \<lparr>easy_init = True,
      easy_setopt = (\<lambda>option arg.
         if option = CURLOPT_HTTPAUTH then CURLE_FAILED_INIT
         else if option = CURLOPT_USERPWD then 43
         else CURLE_OK),
      easy_strerror = stub_strerror,
      easy_transfer = (\<lambda>h. \<lparr>deliveries = [], result = 0, info_response_code = None\<rparr>)\<rparr>"

definition chunk :: "string \<Rightarrow> memory \<Rightarrow> delivery" where
  "chunk bytes m = \<lparr>ptr = bytes, sz = 1, nmemb = length bytes, mem = m\<rparr>"

definition no_chunk :: transfer where
  "no_chunk = \<lparr>deliveries = [], result = 0, info_response_code = Some 204\<rparr>"

definition two_chunks :: transfer where
  "two_chunks =
     \<lparr>deliveries = [chunk ''<a>'' plenty, chunk ''</a>'' plenty],
      result = 0, info_response_code = Some 200\<rparr>"

definition second_chunk_out_of_memory :: transfer where
  "second_chunk_out_of_memory =
     \<lparr>deliveries = [chunk ''<a/>'' \<lparr>largest_block = 5, growth = (\<lambda>n. 2 * n + 1)\<rparr>,
                    chunk ''<b/>'' exhausted],
      result = 0, info_response_code = Some 200\<rparr>"

definition first_chunk_out_of_memory :: transfer where
  "first_chunk_out_of_memory =
     \<lparr>deliveries = [chunk ''<a/>'' exhausted], result = 0, info_response_code = Some 200\<rparr>"

definition blank_request :: http_request where
  "blank_request = \<lparr>handle = [], headers = []\<rparr>"

definition two_chunks_response :: http_response where
  "two_chunks_response =
     \<lparr>data = ''<a>'' @ [CHR 0x00] @ ''</a>'' @ [CHR 0x00], doc = [], code = 200, parsed = False\<rparr>"

definition soap_request_record :: http_request where
  "soap_request_record =
     \<lparr>handle = [(CURLOPT_URL, c_str ''https://example.test/ews''), (CURLOPT_POST, long_val 1),
                (CURLOPT_USERPWD, c_str (''CORP'' @ [CHR 0x5C] @ ''alice:secret'')),
                (CURLOPT_HTTPAUTH, long_val 8)],
      headers = [''Content-Type: text/xml; charset=utf-8'']\<rparr>"

text \<open>
  For the scope guard: an action that counts its calls, and bodies that are left in a
  given way, with or without a call of \<open>release\<close>.
\<close>

definition tick :: "nat callable" where
  "tick n = (None, Suc n)"

definition leaves_by ::
  "unit completion \<Rightarrow> nat on_scope_exit \<Rightarrow> nat \<Rightarrow> unit completion \<times> nat on_scope_exit \<times> nat" where
  "leaves_by c g n = (c, g, n)"

definition releases_and_leaves_by ::
  "unit completion \<Rightarrow> nat on_scope_exit \<Rightarrow> nat \<Rightarrow> unit completion \<times> nat on_scope_exit \<times> nat" where
  "releases_and_leaves_by c g n = (c, release g, n)"

section \<open>Properties of the response wrapper\<close>

lemma http_response_ctor_nonempty:
  "d \<noteq> [] \<Longrightarrow>
   http_response_ctor cfg c d = Inr \<lparr>data = d, doc = [], code = c, parsed = False\<rparr>"
  by (simp add: http_response_ctor_def EWS_ASSERT_def)

text \<open>
  The first call of \<open>payload\<close> on a wrapper with a non-empty buffer: the parser runs once
  on the buffer, the wrapper takes over the tree and the overwritten text, and the guard
  sets the flag on every way out of the block.
\<close>

lemma payload_first:
  assumes "\<not> parsed r" and "data r \<noteq> []"
  shows "payload cfg P r =
     (case thrown (P (data r)) of
        None \<Rightarrow> Inr (tree (P (data r)))
      | Some (rapidxml_parse_error what) \<Rightarrow> Inl (Throw (parse_error what))
      | Some e \<Rightarrow> Inl (Throw e),
      r\<lparr>data := text_after (P (data r)), doc := tree (P (data r)), parsed := True\<rparr>)"
  using assms
  by (simp add: payload_def guarded_scope_def on_scope_exit_ctor_def on_scope_exit_dtor_def
      parse_def Let_def split: option.splits exn.splits)

lemma payload_empty_buffer:
  assumes "\<not> parsed r" and "data r = []"
  shows "payload cfg P r = (Inl Undefined, r)"
  using assms
  by (simp add: payload_def guarded_scope_def on_scope_exit_ctor_def parse_def)

lemma payload_again:
  assumes "parsed r"
  shows "payload cfg P r = (Inr (doc r), r)"
  using assms by (simp add: payload_def)


text \<open>
  Claim C1. A wrapper is constructed from a status code and a non-empty buffer that the
  parser accepts. The first \<open>payload()\<close> returns the tree the parser built and leaves the
  flag set. A second \<open>payload()\<close> returns the same document and leaves the wrapper, its
  buffer included, as it found it; this holds whatever parser \<open>P'\<close> the second call is
  given, so the second call does not consult the parser.
\<close>

theorem payload_twice_same_document:
  assumes "http_response_ctor cfg c d = Inr r" and "d \<noteq> []" and "thrown (P d) = None"
    and "payload cfg P r = (res1, r1)" and "payload cfg P' r1 = (res2, r2)"
  shows "res1 = Inr (tree (P d)) \<and> res2 = res1 \<and> parsed r1 \<and> r2 = r1"
proof -
  from assms(1,2) have r: "r = \<lparr>data = d, doc = [], code = c, parsed = False\<rparr>"
    by (simp add: http_response_ctor_nonempty)
  with assms(2,3,4) have first: "res1 = Inr (tree (P d))"
    and r1: "r1 = r\<lparr>data := text_after (P d), doc := tree (P d), parsed := True\<rparr>"
    by (simp_all add: payload_first)
  from r1 have "parsed r1" and "doc r1 = tree (P d)" by simp_all
  with assms(5) first show ?thesis by (simp add: payload_again)
qed

theorem payload_twice_same_document_witness:
  "http_response_ctor release_build 200 ''<a/>'' = Inr well_formed_response \<and>
   ''<a/>'' \<noteq> [] \<and> thrown (stub_parser ''<a/>'') = None \<and>
   payload release_build stub_parser well_formed_response =
     (Inr [xml_node ''a'' [] [] []],
      \<lparr>data = [CHR ''<'', CHR ''a'', CHR ''/'', CHR 0x00], doc = [xml_node ''a'' [] [] []],
       code = 200, parsed = True\<rparr>) \<and>
   payload release_build rejecting_parser
      \<lparr>data = [CHR ''<'', CHR ''a'', CHR ''/'', CHR 0x00], doc = [xml_node ''a'' [] [] []],
       code = 200, parsed = True\<rparr> =
     (Inr [xml_node ''a'' [] [] []],
      \<lparr>data = [CHR ''<'', CHR ''a'', CHR ''/'', CHR 0x00], doc = [xml_node ''a'' [] [] []],
       code = 200, parsed = True\<rparr>)"
proof -
  have h1: "http_response_ctor release_build 200 ''<a/>'' = Inr well_formed_response"
    by (simp add: http_response_ctor_def EWS_ASSERT_def well_formed_response_def)
  have h2: "''<a/>'' \<noteq> []" by simp
  have h3: "thrown (stub_parser ''<a/>'') = None" by (simp add: stub_parser_def)
  obtain res1 r1 where p1: "payload release_build stub_parser well_formed_response = (res1, r1)"
    by (cases "payload release_build stub_parser well_formed_response")
  obtain res2 r2 where p2: "payload release_build rejecting_parser r1 = (res2, r2)"
    by (cases "payload release_build rejecting_parser r1")
  have r1: "r1 = \<lparr>data = [CHR ''<'', CHR ''a'', CHR ''/'', CHR 0x00],
      doc = [xml_node ''a'' [] [] []], code = 200, parsed = True\<rparr>"
    using p1
    by (simp add: payload_def guarded_scope_def on_scope_exit_ctor_def on_scope_exit_dtor_def
        parse_def stub_parser_def well_formed_response_def Let_def)
  from payload_twice_same_document [OF h1 h2 h3 p1 p2]
  have "res1 = Inr (tree (stub_parser ''<a/>''))" and "res2 = res1" and "r2 = r1" by simp_all
  with p1 p2 r1 h1 h2 h3 show ?thesis by (simp add: stub_parser_def)
qed




text \<open>
  Claim C9. When the first \<open>payload()\<close> raises the parse error, the guard has set the flag
  on the way out: the wrapper is not what it was, it holds whatever tree the parser had
  built when it stopped, and every later \<open>payload()\<close> returns that tree without raising
  and without consulting the parser (the result is the same for every parser \<open>P'\<close>).
\<close>

theorem payload_after_parse_error:
  assumes "\<not> parsed r" and "data r \<noteq> []"
    and "thrown (P (data r)) = Some (rapidxml_parse_error what)"
    and "payload cfg P r = (res1, r1)"
  shows "res1 = Inl (Throw (parse_error what)) \<and> parsed r1 \<and> r1 \<noteq> r \<and>
         doc r1 = tree (P (data r)) \<and>
         (\<forall>cfg' P'. payload cfg' P' r1 = (Inr (doc r1), r1))"
proof -
  from assms have res1: "res1 = Inl (Throw (parse_error what))"
    and r1: "r1 = r\<lparr>data := text_after (P (data r)), doc := tree (P (data r)), parsed := True\<rparr>"
    by (simp_all add: payload_first)
  from r1 have p: "parsed r1" by simp
  with assms(1) have "r1 \<noteq> r" by auto
  with res1 r1 p show ?thesis by (simp add: payload_again)
qed

theorem payload_after_parse_error_witness:
  "\<not> parsed malformed_response \<and> data malformed_response \<noteq> [] \<and>
   thrown (stub_parser (data malformed_response)) = Some (rapidxml_parse_error ''expected <'') \<and>
   payload release_build stub_parser malformed_response =
     (Inl (Throw (parse_error ''expected <'')), malformed_response\<lparr>parsed := True\<rparr>) \<and>
   payload release_build stub_parser (malformed_response\<lparr>parsed := True\<rparr>) =
     (Inr [], malformed_response\<lparr>parsed := True\<rparr>)"
proof -
  have h1: "\<not> parsed malformed_response" by (simp add: malformed_response_def)
  have h2: "data malformed_response \<noteq> []" by (simp add: malformed_response_def)
  have h3: "thrown (stub_parser (data malformed_response)) =
      Some (rapidxml_parse_error ''expected <'')"
    by (simp add: malformed_response_def stub_parser_def)
  obtain res1 r1 where p1: "payload release_build stub_parser malformed_response = (res1, r1)"
    by (cases "payload release_build stub_parser malformed_response")
  have r1: "r1 = malformed_response\<lparr>parsed := True\<rparr>"
    using p1
    by (simp add: payload_def guarded_scope_def on_scope_exit_ctor_def on_scope_exit_dtor_def
        parse_def stub_parser_def malformed_response_def Let_def)
  from payload_after_parse_error
    [where P = stub_parser and r = malformed_response and cfg = release_build, OF h1 h2 h3 p1]
  have "res1 = Inl (Throw (parse_error ''expected <''))"
    and "doc r1 = tree (stub_parser (data malformed_response))"
    and "payload release_build stub_parser r1 = (Inr (doc r1), r1)"
    by simp_all
  with p1 r1 h1 h2 h3 show ?thesis by (simp add: stub_parser_def malformed_response_def)
qed

text \<open>
  Claim C3, as the code has it. Whether an empty buffer is rejected depends on the build:
  with assertions compiled in (\<open>NDEBUG\<close> undefined and \<open>EWS_ENABLE_ASSERTS\<close> defined) the
  constructor aborts; in every other build \<open>EWS_ASSERT\<close> is empty and the constructor
  returns a wrapper that holds the empty buffer.
\<close>

theorem http_response_ctor_empty_buffer:
  "http_response_ctor cfg c [] =
     (if \<not> NDEBUG cfg \<and> EWS_ENABLE_ASSERTS cfg then Inl Abort
      else Inr \<lparr>data = [], doc = [], code = c, parsed = False\<rparr>)"
  by (simp add: http_response_ctor_def EWS_ASSERT_def asserts_enabled_def)

text \<open>
  The claim as stated fails: in a build without assertions the constructor accepts the
  empty buffer.
\<close>

theorem http_response_ctor_empty_buffer_accepted:
  "http_response_ctor release_build 200 [] =
     Inr \<lparr>data = [], doc = [], code = 200, parsed = False\<rparr>"
  by (simp add: http_response_ctor_def EWS_ASSERT_def asserts_enabled_def release_build_def)

section \<open>Properties of the scope guard\<close>

text \<open>
  Claim C8, as the code has it. The guard is constructed without a failure and the body is
  left normally, by \<open>return\<close> or by an exception. If the body has not called \<open>release\<close>,
  the state after the block is the state the action leaves when it is called, once, on
  the state the body left (and the block completes as the body did, when the action throws
  nothing). If the body has called \<open>release\<close>, the state after the block is the state the
  body left: the action has not run. If the initialiser of \<open>func_\<close> throws an exception
  derived from \<open>std::exception\<close>, the action is called once, on the spot, and an exception
  leaves the constructor: the one caught, or the action's own.
\<close>

theorem on_scope_exit_runs_once:
  "(body \<lparr>func = Some f\<rparr> s = (c, \<lparr>func = Some f\<rparr>, s1) \<and>
      (c = Normal \<or> (\<exists>v. c = Return v) \<or> (\<exists>e. c = Fail (Throw e))) \<longrightarrow>
        snd (guarded_scope cfg None f body s) = snd (f s1) \<and>
        (fst (f s1) = None \<longrightarrow> fst (guarded_scope cfg None f body s) = c)) \<and>
   (body \<lparr>func = Some f\<rparr> s = (c, release \<lparr>func = Some f\<rparr>, s1) \<longrightarrow>
        guarded_scope cfg None f body s = (c, s1)) \<and>
   (is_std_exception x \<longrightarrow>
        guarded_scope cfg (Some x) f body s =
          (Fail (Throw (case fst (f s) of None \<Rightarrow> x | Some x' \<Rightarrow> x')), snd (f s)))"
  by (auto simp add: guarded_scope_def on_scope_exit_ctor_def on_scope_exit_dtor_def release_def
      EWS_ASSERT_def split: prod.splits option.splits)

theorem on_scope_exit_runs_once_witness:
  "leaves_by Normal \<lparr>func = Some tick\<rparr> 0 = (Normal, \<lparr>func = Some tick\<rparr>, 0) \<and>
   releases_and_leaves_by Normal \<lparr>func = Some tick\<rparr> 0 =
     (Normal, release \<lparr>func = Some tick\<rparr>, 0) \<and>
   is_std_exception bad_alloc \<and> tick 0 = (None, 1) \<and>
   guarded_scope checked_build None tick (leaves_by Normal) 0 = (Normal, 1) \<and>
   guarded_scope checked_build None tick (leaves_by (Return ())) 0 = (Return (), 1) \<and>
   guarded_scope checked_build None tick (leaves_by (Fail (Throw (std_exception ''boom'')))) 0 =
     (Fail (Throw (std_exception ''boom'')), 1) \<and>
   guarded_scope checked_build None tick (releases_and_leaves_by Normal) 0 = (Normal, 0) \<and>
   guarded_scope checked_build (Some bad_alloc) tick (leaves_by Normal) 0 =
     (Fail (Throw bad_alloc), 1)"
proof -
  have a: "guarded_scope checked_build None tick (leaves_by c) 0 = (c, 1)"
    if "c = Normal \<or> (\<exists>v. c = Return v) \<or> (\<exists>e. c = Fail (Throw e))" for c
    using on_scope_exit_runs_once
      [where body = "leaves_by c" and f = tick and s = 0 and c = c and ?s1.0 = 0
         and cfg = checked_build and x = bad_alloc] that
    by (auto simp add: leaves_by_def tick_def prod_eq_iff)
  have b: "guarded_scope checked_build None tick (releases_and_leaves_by Normal) 0 = (Normal, 0)"
    using on_scope_exit_runs_once
      [where body = "releases_and_leaves_by Normal" and f = tick and s = 0 and c = Normal
         and ?s1.0 = 0 and cfg = checked_build and x = bad_alloc]
    by (simp add: releases_and_leaves_by_def)
  have c: "guarded_scope checked_build (Some bad_alloc) tick (leaves_by Normal) 0 =
     (Fail (Throw bad_alloc), 1)"
    using on_scope_exit_runs_once
      [where body = "leaves_by Normal" and f = tick and s = 0 and c = Normal
         and ?s1.0 = 0 and cfg = checked_build and x = bad_alloc]
    by (simp add: tick_def)
  from a [of Normal] a [of "Return ()"] a [of "Fail (Throw (std_exception ''boom''))"] b c
  show ?thesis by (simp add: leaves_by_def releases_and_leaves_by_def tick_def)
qed

text \<open>
  The claim as stated fails in its last part: when the initialiser of \<open>func_\<close> throws an
  object that is not derived from \<open>std::exception\<close>, the handler does not match and the
  action is not called (the counter stays at 0).
\<close>

theorem on_scope_exit_ctor_foreign_exception:
  "on_scope_exit_ctor (Some foreign_exception) tick 0 = (Inl foreign_exception, 0)"
  by (simp add: on_scope_exit_ctor_def)

section \<open>Properties of the request builder\<close>

text \<open>
  Claim C5. \<open>set_option\<close> returns normally, with the option on the handle, exactly when the
  transport answers \<open>CURLE_OK\<close>. On \<open>CURLE_FAILED_INIT\<close> it throws a \<open>curl_error\<close> whose
  message is \<open>curl_easy_setopt: unsupported option\<close>, and on any other code one whose
  message is \<open>curl_easy_setopt: failed setting option\<close>, each followed by a colon and the
  transport's reason string in single quotes (the message names the operation that failed;
  it does not depend on which option was being set). The outcome for \<open>CURLE_FAILED_INIT\<close>
  differs from the outcome for every other code, whatever the reason strings are.
\<close>

theorem set_option_converts_codes:
  "set_option lc option arg req =
     (if easy_setopt lc option arg = CURLE_OK then
        Inr (req\<lparr>handle := handle req @ [(option, arg)]\<rparr>)
      else if easy_setopt lc option arg = CURLE_FAILED_INIT then
        Inl (Throw (curl_error (''curl_easy_setopt: unsupported option: '' @ [CHR 0x27] @
          easy_strerror lc CURLE_FAILED_INIT @ [CHR 0x27])))
      else
        Inl (Throw (curl_error (''curl_easy_setopt: failed setting option: '' @ [CHR 0x27] @
          easy_strerror lc (easy_setopt lc option arg) @ [CHR 0x27])))) \<and>
   (easy_setopt lc option arg = CURLE_FAILED_INIT \<and>
    easy_setopt lc' option' arg' \<noteq> CURLE_FAILED_INIT \<longrightarrow>
      set_option lc option arg req \<noteq> set_option lc' option' arg' req')"
  by (simp add: set_option_def curl_easy_setopt_def make_error_def CURLE_OK_def
      CURLE_FAILED_INIT_def Let_def)

theorem set_option_converts_codes_witness:
  "set_option picky_curl CURLOPT_HTTPAUTH (long_val CURLAUTH_NTLM) blank_request =
     Inl (Throw (curl_error (''curl_easy_setopt: unsupported option: '' @ [CHR 0x27] @
       ''Failed initialization'' @ [CHR 0x27]))) \<and>
   set_option picky_curl CURLOPT_USERPWD (c_str ''x'') blank_request =
     Inl (Throw (curl_error (''curl_easy_setopt: failed setting option: '' @ [CHR 0x27] @
       ''A libcurl function was given a bad argument'' @ [CHR 0x27]))) \<and>
   set_option picky_curl CURLOPT_POST (long_val 1) blank_request =
     Inr \<lparr>handle = [(CURLOPT_POST, long_val 1)], headers = []\<rparr> \<and>
   easy_setopt picky_curl CURLOPT_HTTPAUTH (long_val CURLAUTH_NTLM) = CURLE_FAILED_INIT \<and>
   easy_setopt picky_curl CURLOPT_USERPWD (c_str ''x'') \<noteq> CURLE_FAILED_INIT \<and>
   set_option picky_curl CURLOPT_HTTPAUTH (long_val CURLAUTH_NTLM) blank_request \<noteq>
     set_option picky_curl CURLOPT_USERPWD (c_str ''x'') blank_request"
  using set_option_converts_codes [of picky_curl CURLOPT_HTTPAUTH "long_val CURLAUTH_NTLM"
      blank_request picky_curl CURLOPT_USERPWD "c_str ''x''" blank_request]
    set_option_converts_codes [of picky_curl CURLOPT_USERPWD "c_str ''x''" blank_request]
    set_option_converts_codes [of picky_curl CURLOPT_POST "long_val 1" blank_request]
  by (simp add: picky_curl_def CURLE_OK_def CURLE_FAILED_INIT_def stub_strerror_def
      blank_request_def)

text \<open>
  Claim C6. On a request that is there (a non-null pointer) and a transport that accepts
  both options, \<open>certify\<close> leaves the request with exactly two more options on its handle,
  in this order: \<open>CURLOPT_USERPWD\<close> with the characters of domain, backslash, username,
  colon, password, and \<open>CURLOPT_HTTPAUTH\<close> with \<open>CURLAUTH_NTLM\<close>, which is 8. Nothing else
  of the request changes. \<open>certify\<close> is a \<open>const\<close> member: it reads the credentials and has
  no way to change them, which is why the function returns the request only.
\<close>

theorem certify_sets_login_and_ntlm:
  assumes "easy_setopt lc CURLOPT_USERPWD
             (c_str (domain @ [CHR 0x5C] @ username @ '':'' @ password)) = CURLE_OK"
    and "easy_setopt lc CURLOPT_HTTPAUTH (long_val CURLAUTH_NTLM) = CURLE_OK"
  shows "certify cfg lc (ntlm_credentials username password domain) (Some req) =
     Inr (req\<lparr>handle := handle req @
       [(CURLOPT_USERPWD, c_str (domain @ [CHR 0x5C] @ username @ '':'' @ password)),
        (CURLOPT_HTTPAUTH, long_val 8)]\<rparr>)"
  using assms
  by (simp add: EWS_ASSERT_def set_option_def curl_easy_setopt_def Let_def CURLAUTH_NTLM_def)

theorem certify_sets_login_and_ntlm_witness:
  "easy_setopt (stub_curl no_chunk) CURLOPT_USERPWD
      (c_str (''CORP'' @ [CHR 0x5C] @ ''alice'' @ '':'' @ ''secret'')) = CURLE_OK \<and>
   easy_setopt (stub_curl no_chunk) CURLOPT_HTTPAUTH (long_val CURLAUTH_NTLM) = CURLE_OK \<and>
   certify checked_build (stub_curl no_chunk) (ntlm_credentials ''alice'' ''secret'' ''CORP'')
      (Some blank_request) =
     Inr \<lparr>handle = [(CURLOPT_USERPWD, c_str (''CORP'' @ [CHR 0x5C] @ ''alice:secret'')),
                     (CURLOPT_HTTPAUTH, long_val 8)],
          headers = []\<rparr>"
proof -
  have h1: "easy_setopt (stub_curl no_chunk) CURLOPT_USERPWD
      (c_str (''CORP'' @ [CHR 0x5C] @ ''alice'' @ '':'' @ ''secret'')) = CURLE_OK"
    by (simp add: stub_curl_def)
  have h2: "easy_setopt (stub_curl no_chunk) CURLOPT_HTTPAUTH (long_val CURLAUTH_NTLM) = CURLE_OK"
    by (simp add: stub_curl_def)
  from certify_sets_login_and_ntlm [OF h1 h2, of checked_build blank_request] h1 h2
  show ?thesis by (simp add: blank_request_def)
qed

section \<open>Properties of \<open>send\<close>\<close>

lemma and_then_Inr:
  "and_then x f = Inr y \<longleftrightarrow> (\<exists>a. x = Inr a \<and> f a = Inr y)"
  by (cases x) simp_all

text \<open>
  On a transport that accepts every option, \<open>send\<close> is the transfer on a handle that holds
  the request's options followed by those \<open>send\<close> sets, the request string among them.
\<close>

lemma send_accepting:
  assumes "\<forall>option arg. easy_setopt lc option arg = CURLE_OK"
  shows "send cfg lc request req =
     (let h = handle req @
            (if \<not> NDEBUG cfg then [(CURLOPT_VERBOSE, long_val 1)] else []) @
            [(CURLOPT_USERAGENT, c_str ''libcurl-agent/1.0''),
             (CURLOPT_POSTFIELDS, c_str request),
             (CURLOPT_POSTFIELDSIZE, long_val (int (length request))),
             (CURLOPT_HTTPHEADER, slist (headers req)),
             (CURLOPT_WRITEFUNCTION, callback_ptr),
             (CURLOPT_WRITEDATA, response_data_ptr)] @
            (if \<not> NDEBUG cfg then [(CURLOPT_SSL_VERIFYPEER, long_val 0)] else [])
      in case curl_easy_perform lc h \<lparr>elems = [], capacity = 0\<rparr> of
           Inl fl \<Rightarrow> Inl fl
         | Inr (retcode, response_data) \<Rightarrow>
             if retcode \<noteq> 0 then Inl (Throw (make_error lc ''curl_easy_perform'' retcode))
             else http_response_ctor cfg (curl_easy_getinfo_response_code lc h 0)
                    (elems response_data))"
  using assms
  by (simp add: send_def set_option_def curl_easy_setopt_def Let_def
      split: sum.splits prod.splits)

text \<open>
  A \<open>send\<close> that returns a wrapper has seen \<open>curl_easy_perform\<close> return 0, and the
  wrapper's buffer is what the callback accumulated.
\<close>

lemma send_returns:
  assumes "send cfg lc request req = Inr r"
  shows "\<exists>h buf. curl_easy_perform lc h \<lparr>elems = [], capacity = 0\<rparr> = Inr (0, buf) \<and>
           data r = elems buf"
proof -
  from assms have "\<exists>req' :: http_request.
          (case curl_easy_perform lc (handle req') \<lparr>elems = [], capacity = 0\<rparr> of
             Inl fl \<Rightarrow> Inl fl
           | Inr (retcode, response_data) \<Rightarrow>
               if retcode \<noteq> 0 then Inl (Throw (make_error lc ''curl_easy_perform'' retcode))
               else http_response_ctor cfg (curl_easy_getinfo_response_code lc (handle req') 0)
                      (elems response_data)) = Inr r"
    unfolding send_def Let_def and_then_Inr by (elim exE conjE) (rule exI, assumption)
  then obtain h where
    fin: "(case curl_easy_perform lc h \<lparr>elems = [], capacity = 0\<rparr> of
             Inl fl \<Rightarrow> Inl fl
           | Inr (retcode, response_data) \<Rightarrow>
               if retcode \<noteq> 0 then Inl (Throw (make_error lc ''curl_easy_perform'' retcode))
               else http_response_ctor cfg (curl_easy_getinfo_response_code lc h 0)
                      (elems response_data)) = Inr r"
    by blast
  then obtain buf where
    p: "curl_easy_perform lc h \<lparr>elems = [], capacity = 0\<rparr> = Inr (0, buf)"
    and c: "http_response_ctor cfg (curl_easy_getinfo_response_code lc h 0) (elems buf) = Inr r"
    by (cases "curl_easy_perform lc h \<lparr>elems = [], capacity = 0\<rparr>")
      (auto split: if_splits)
  from c have "data r = elems buf"
    by (auto simp add: http_response_ctor_def Let_def split: option.splits)
  with p show ?thesis by blast
qed

subsection \<open>Failures of the transfer\<close>

text \<open>
  When \<open>curl_easy_perform\<close> returns a code other than 0 (the connection fails, the
  transfer times out, TLS fails, or the callback has aborted the transfer), \<open>send\<close> throws a
  \<open>curl_error\<close> that holds the transport's reason string, and returns no response.
\<close>

lemma send_raises_curl_error:
  assumes "\<forall>option arg. easy_setopt lc option arg = CURLE_OK"
    and "easy_transfer lc = (\<lambda>h. t)"
    and "deliver (deliveries t) (result t) \<lparr>elems = [], capacity = 0\<rparr> = Inr (retcode, buf)"
    and "retcode \<noteq> 0"
  shows "send cfg lc request req =
     Inl (Throw (curl_error (''curl_easy_perform: '' @ [CHR 0x27] @ easy_strerror lc retcode @
       [CHR 0x27])))"
  using assms
  by (simp add: send_accepting curl_easy_perform_def make_error_def Let_def)

text \<open>
  When \<open>reserve\<close> throws \<open>std::bad_alloc\<close> the callback returns 0 and leaves the buffer as
  it was; for a block that is not empty the transport then aborts the transfer with
  \<open>CURLE_WRITE_ERROR\<close>.
\<close>

lemma write_callback_reserve_fails:
  "reserve m (size_arg * nmemb_arg + 1) buf = Inl bad_alloc \<Longrightarrow>
   write_callback m p size_arg nmemb_arg buf = Inr (0, buf)"
  by (simp add: write_callback_def)

lemma deliver_reserve_fails:
  assumes "reserve (mem d) (sz d * nmemb d + 1) buf = Inl bad_alloc" and "0 < sz d * nmemb d"
  shows "deliver (d # ds) rc buf = Inr (CURLE_WRITE_ERROR, buf)"
  using assms by (simp add: write_callback_reserve_fails)

lemma send_reserve_out_of_memory:
  "send release_build (stub_curl first_chunk_out_of_memory) ''<m:Ping/>'' blank_request =
     Inl (Throw (curl_error (''curl_easy_perform: '' @ [CHR 0x27] @
       ''Failed writing received data to disk/application'' @ [CHR 0x27])))"
  by (simp add: send_def set_option_def curl_easy_setopt_def stub_curl_def release_build_def
      blank_request_def first_chunk_out_of_memory_def chunk_def exhausted_def
      curl_easy_perform_def write_callback_def reserve_def CURLE_OK_def CURLE_WRITE_ERROR_def
      make_error_def stub_strerror_def Let_def)

text \<open>
  Claim C4 fails on the code. The callback asks \<open>reserve\<close> for \<open>realsize + 1\<close> elements in
  all, not for that many more than the buffer holds. From the second block on, a buffer
  whose capacity already covers \<open>realsize + 1\<close> makes \<open>reserve\<close> do nothing, and the
  allocation happens in \<open>std::copy\<close> through the back inserter, outside the \<open>try\<close> block.
  Here the first block of four bytes fills a buffer of capacity five; the second block of
  four bytes arrives when no memory is left. The callback does not return 0: it throws
  \<open>std::bad_alloc\<close> into the transport, and what leaves \<open>send\<close> is not a \<open>curl_error\<close>.
\<close>

theorem write_callback_throws_after_reserve:
  "write_callback exhausted ''<b/>'' 1 4 \<lparr>elems = ''<a/>'' @ [CHR 0x00], capacity = 5\<rparr> =
     Inl (Throw bad_alloc) \<and>
   send release_build (stub_curl second_chunk_out_of_memory) ''<m:Ping/>'' blank_request =
     Inl (Throw bad_alloc)"
  by (simp add: send_def set_option_def curl_easy_setopt_def stub_curl_def release_build_def
      blank_request_def second_chunk_out_of_memory_def chunk_def exhausted_def
      curl_easy_perform_def write_callback_def reserve_def push_back_def CURLE_OK_def Let_def)

subsection \<open>The accumulated buffer\<close>

lemma push_back_elems:
  "push_back m c v = Inr v' \<Longrightarrow> elems v' = elems v @ [c]"
  by (auto simp add: push_back_def Let_def split: if_splits)

lemma copy_back_inserter_elems:
  "copy_back_inserter m cs v = Inr v' \<Longrightarrow> elems v' = elems v @ cs"
proof (induction cs arbitrary: v)
  case Nil
  then show ?case by simp
next
  case (Cons c cs)
  from Cons.prems obtain v1 where v1: "push_back m c v = Inr v1"
    and rest: "copy_back_inserter m cs v1 = Inr v'"
    by (auto split: sum.splits)
  from Cons.IH [OF rest] push_back_elems [OF v1] show ?case by simp
qed

lemma reserve_elems:
  "reserve m n v = Inr v' \<Longrightarrow> elems v' = elems v"
  by (auto simp add: reserve_def split: if_splits)

lemma reserve_throws:
  "reserve m n v = Inl e \<Longrightarrow> e = bad_alloc"
  by (auto simp add: reserve_def split: if_splits)

text \<open>
  The two ways the callback returns a value: by the handler, with 0 and the buffer
  untouched, or at its end, with \<open>realsize\<close> and the block and a terminator appended.
\<close>

lemma write_callback_returns:
  assumes "write_callback m p size_arg nmemb_arg buf = Inr (k, buf')"
  shows "(k = 0 \<and> buf' = buf \<and> reserve m (size_arg * nmemb_arg + 1) buf = Inl bad_alloc) \<or>
         (k = size_arg * nmemb_arg \<and> k \<le> length p \<and>
          elems buf' = elems buf @ take (size_arg * nmemb_arg) p @ [CHR 0x00])"
proof (cases "reserve m (size_arg * nmemb_arg + 1) buf")
  case (Inl e)
  with reserve_throws [OF Inl] assms show ?thesis
    by (simp add: write_callback_def)
next
  case (Inr buf1)
  with assms obtain buf2 where
    c: "copy_back_inserter m (take (size_arg * nmemb_arg) p) buf1 = Inr buf2"
    and n: "push_back m (CHR 0x00) buf2 = Inr buf'" and k: "k = size_arg * nmemb_arg"
    and len: "size_arg * nmemb_arg \<le> length p"
    by (auto simp add: write_callback_def Let_def not_less split: if_splits sum.splits)
  from reserve_elems [OF Inr] copy_back_inserter_elems [OF c] push_back_elems [OF n] k len
  show ?thesis by simp
qed

lemma write_callback_appends:
  assumes "write_callback m p size_arg nmemb_arg buf = Inr (k, buf')"
    and "k = size_arg * nmemb_arg" and "0 < k"
  shows "elems buf' = elems buf @ take k p @ [CHR 0x00] \<and> k \<le> length p"
  using write_callback_returns [OF assms(1)] assms(2,3) by auto

text \<open>The buffer stays empty or terminated through every transfer that returns.\<close>

lemma deliver_terminated:
  assumes "deliver ds rc buf = Inr (rc', buf')"
    and "elems buf = [] \<or> last (elems buf) = CHR 0x00"
  shows "elems buf' = [] \<or> last (elems buf') = CHR 0x00"
  using assms
proof (induction ds arbitrary: buf)
  case Nil
  then show ?case by simp
next
  case (Cons d ds)
  from Cons.prems(1) obtain k buf1 where
    w: "write_callback (mem d) (ptr d) (sz d) (nmemb d) buf = Inr (k, buf1)"
    by (auto split: sum.splits)
  from write_callback_returns [OF w] Cons.prems(2)
  have inv: "elems buf1 = [] \<or> last (elems buf1) = CHR 0x00" by auto
  show ?case
  proof (cases "k = sz d * nmemb d")
    case True
    with Cons.prems(1) w have "deliver ds rc buf1 = Inr (rc', buf')" by simp
    from Cons.IH [OF this inv] show ?thesis .
  next
    case False
    with Cons.prems(1) w have "buf' = buf1" by simp
    with inv show ?thesis by simp
  qed
qed

lemma reserve_has_room:
  "n \<le> largest_block m \<Longrightarrow> reserve m n v \<noteq> Inl bad_alloc"
  by (simp add: reserve_def)

lemma deliver_concat:
  assumes "deliver ds rc buf = Inr (rc', buf')" and "rc' \<noteq> CURLE_WRITE_ERROR"
    and "\<forall>d \<in> set ds. 0 < sz d * nmemb d \<or> sz d * nmemb d + 1 \<le> largest_block (mem d)"
  shows "elems buf' =
     elems buf @ concat (map (\<lambda>d. take (sz d * nmemb d) (ptr d) @ [CHR 0x00]) ds)"
  using assms
proof (induction ds arbitrary: buf)
  case Nil
  then show ?case by simp
next
  case (Cons d ds)
  from Cons.prems(1) obtain k buf1 where
    w: "write_callback (mem d) (ptr d) (sz d) (nmemb d) buf = Inr (k, buf1)"
    by (auto split: sum.splits)
  from Cons.prems(1,2) w have k: "k = sz d * nmemb d"
    and rest: "deliver ds rc buf1 = Inr (rc', buf')"
    by (auto split: if_splits)
  from Cons.prems(3)
  have here: "0 < sz d * nmemb d \<or> sz d * nmemb d + 1 \<le> largest_block (mem d)"
    and others:
      "\<forall>d \<in> set ds. 0 < sz d * nmemb d \<or> sz d * nmemb d + 1 \<le> largest_block (mem d)"
    by simp_all
  from here have "k \<noteq> 0 \<or> reserve (mem d) (sz d * nmemb d + 1) buf \<noteq> Inl bad_alloc"
    using k reserve_has_room by auto
  with write_callback_returns [OF w]
  have "elems buf1 = elems buf @ take (sz d * nmemb d) (ptr d) @ [CHR 0x00]" by auto
  with Cons.IH [OF rest Cons.prems(2) others] show ?case by simp
qed

lemma concat_terminated:
  "ds \<noteq> [] \<Longrightarrow>
   concat (map (\<lambda>d. g d @ [c]) ds) \<noteq> [] \<and> last (concat (map (\<lambda>d. g d @ [c]) ds)) = c"
  by (induction ds rule: rev_induct) simp_all

lemma send_two_chunks:
  "send release_build (stub_curl two_chunks) ''<m:Ping/>'' blank_request = Inr two_chunks_response"
  by (simp add: send_def set_option_def curl_easy_setopt_def stub_curl_def release_build_def
      blank_request_def two_chunks_def chunk_def plenty_def curl_easy_perform_def
      write_callback_def reserve_def push_back_def CURLE_OK_def Let_def
      curl_easy_getinfo_response_code_def http_response_ctor_def EWS_ASSERT_def
      two_chunks_response_def)

text \<open>
  What the callback accumulates. An invocation that returns a value without \<open>reserve\<close>
  having thrown returns \<open>size * nmemb\<close> and leaves the buffer longer by exactly
  \<open>size * nmemb\<close> bytes of the block plus one terminator. The buffer of a returned wrapper
  is empty or ends with the terminator. When every block was non-empty or had memory for
  its \<open>reserve\<close>, the buffer is the blocks in order, each followed by a terminator.
\<close>

lemma response_buffer_chunks:
  "(write_callback m p size_arg nmemb_arg buf = Inr (k, buf') \<and>
    reserve m (size_arg * nmemb_arg + 1) buf \<noteq> Inl bad_alloc
      \<longrightarrow> k = size_arg * nmemb_arg \<and>
           elems buf' = elems buf @ take (size_arg * nmemb_arg) p @ [CHR 0x00] \<and>
           length (elems buf') = length (elems buf) + size_arg * nmemb_arg + 1) \<and>
   (send cfg lc request req = Inr r \<longrightarrow> data r = [] \<or> last (data r) = CHR 0x00) \<and>
   (send cfg lc request req = Inr r \<and> easy_transfer lc = (\<lambda>h. t) \<and>
    (\<forall>d \<in> set (deliveries t).
        0 < sz d * nmemb d \<or> sz d * nmemb d + 1 \<le> largest_block (mem d))
      \<longrightarrow> data r =
            concat (map (\<lambda>d. take (sz d * nmemb d) (ptr d) @ [CHR 0x00]) (deliveries t)) \<and>
          (deliveries t \<noteq> [] \<longrightarrow> data r \<noteq> [] \<and> last (data r) = CHR 0x00))"
proof (intro conjI; rule impI)
  assume a: "write_callback m p size_arg nmemb_arg buf = Inr (k, buf') \<and>
      reserve m (size_arg * nmemb_arg + 1) buf \<noteq> Inl bad_alloc"
  then have w: "write_callback m p size_arg nmemb_arg buf = Inr (k, buf')"
    and ok: "reserve m (size_arg * nmemb_arg + 1) buf \<noteq> Inl bad_alloc" by blast+
  from write_callback_returns [OF w] ok
  show "k = size_arg * nmemb_arg \<and>
      elems buf' = elems buf @ take (size_arg * nmemb_arg) p @ [CHR 0x00] \<and>
      length (elems buf') = length (elems buf) + size_arg * nmemb_arg + 1" by auto
next
  assume "send cfg lc request req = Inr r"
  from send_returns [OF this] obtain h buf where
    p: "curl_easy_perform lc h \<lparr>elems = [], capacity = 0\<rparr> = Inr (0, buf)"
    and d: "data r = elems buf" by blast
  from p have "deliver (deliveries (easy_transfer lc h)) (result (easy_transfer lc h))
      \<lparr>elems = [], capacity = 0\<rparr> = Inr (0, buf)"
    by (simp add: curl_easy_perform_def Let_def)
  from deliver_terminated [OF this] d
  show "data r = [] \<or> last (data r) = CHR 0x00" by simp
next
  assume a: "send cfg lc request req = Inr r \<and> easy_transfer lc = (\<lambda>h. t) \<and>
    (\<forall>d \<in> set (deliveries t).
        0 < sz d * nmemb d \<or> sz d * nmemb d + 1 \<le> largest_block (mem d))"
  then have s: "send cfg lc request req = Inr r" and t: "easy_transfer lc = (\<lambda>h. t)"
    and pos: "\<forall>d \<in> set (deliveries t).
        0 < sz d * nmemb d \<or> sz d * nmemb d + 1 \<le> largest_block (mem d)" by blast+
  from send_returns [OF s] obtain h buf where
    p: "curl_easy_perform lc h \<lparr>elems = [], capacity = 0\<rparr> = Inr (0, buf)"
    and d: "data r = elems buf" by blast
  from p t have del: "deliver (deliveries t) (result t) \<lparr>elems = [], capacity = 0\<rparr> = Inr (0, buf)"
    by (simp add: curl_easy_perform_def Let_def)
  have "(0::nat) \<noteq> CURLE_WRITE_ERROR" by (simp add: CURLE_WRITE_ERROR_def)
  from deliver_concat [OF del this pos] d
  have c: "data r = concat (map (\<lambda>d. take (sz d * nmemb d) (ptr d) @ [CHR 0x00]) (deliveries t))"
    by simp
  with concat_terminated [of "deliveries t" "\<lambda>d. take (sz d * nmemb d) (ptr d)" "CHR 0x00"]
  show "data r = concat (map (\<lambda>d. take (sz d * nmemb d) (ptr d) @ [CHR 0x00]) (deliveries t)) \<and>
      (deliveries t \<noteq> [] \<longrightarrow> data r \<noteq> [] \<and> last (data r) = CHR 0x00)"
    by simp
qed

lemma response_buffer_chunks_two_chunks:
  "write_callback plenty ''<a>'' 1 3 \<lparr>elems = [], capacity = 0\<rparr> =
     Inr (3, \<lparr>elems = ''<a>'' @ [CHR 0x00], capacity = 4\<rparr>) \<and>
   reserve plenty (1 * 3 + 1) \<lparr>elems = [], capacity = 0\<rparr> \<noteq> Inl bad_alloc \<and>
   send release_build (stub_curl two_chunks) ''<m:Ping/>'' blank_request = Inr two_chunks_response \<and>
   easy_transfer (stub_curl two_chunks) = (\<lambda>h. two_chunks) \<and>
   deliveries two_chunks = [chunk ''<a>'' plenty, chunk ''</a>'' plenty] \<and>
   0 < sz (chunk ''<a>'' plenty) * nmemb (chunk ''<a>'' plenty) \<and>
   0 < sz (chunk ''</a>'' plenty) * nmemb (chunk ''</a>'' plenty) \<and>
   data two_chunks_response = ''<a>'' @ [CHR 0x00] @ ''</a>'' @ [CHR 0x00] \<and>
   data two_chunks_response =
     concat (map (\<lambda>d. take (sz d * nmemb d) (ptr d) @ [CHR 0x00]) (deliveries two_chunks)) \<and>
   last (data two_chunks_response) = CHR 0x00"
proof -
  have w: "write_callback plenty ''<a>'' 1 3 \<lparr>elems = [], capacity = 0\<rparr> =
     Inr (3, \<lparr>elems = ''<a>'' @ [CHR 0x00], capacity = 4\<rparr>)"
    by (simp add: write_callback_def reserve_def push_back_def plenty_def Let_def)
  have ok: "reserve plenty (1 * 3 + 1) \<lparr>elems = [], capacity = 0\<rparr> \<noteq> Inl bad_alloc"
    by (simp add: reserve_def plenty_def)
  have t: "easy_transfer (stub_curl two_chunks) = (\<lambda>h. two_chunks)"
    by (simp add: stub_curl_def)
  have pos: "\<forall>d \<in> set (deliveries two_chunks).
      0 < sz d * nmemb d \<or> sz d * nmemb d + 1 \<le> largest_block (mem d)"
    by (simp add: two_chunks_def chunk_def)
  have ds: "deliveries two_chunks = [chunk ''<a>'' plenty, chunk ''</a>'' plenty]"
    by (simp add: two_chunks_def)
  have p1: "0 < sz (chunk ''<a>'' plenty) * nmemb (chunk ''<a>'' plenty)"
    and p2: "0 < sz (chunk ''</a>'' plenty) * nmemb (chunk ''</a>'' plenty)"
    by (simp_all add: chunk_def)
  have ne: "deliveries two_chunks \<noteq> []" by (simp add: two_chunks_def)
  have d: "data two_chunks_response = ''<a>'' @ [CHR 0x00] @ ''</a>'' @ [CHR 0x00]"
    by (simp add: two_chunks_response_def)
  from response_buffer_chunks
    [where cfg = release_build and lc = "stub_curl two_chunks" and request = "''<m:Ping/>''"
       and req = blank_request and t = two_chunks and r = two_chunks_response]
    send_two_chunks t pos ne
  have "data two_chunks_response =
      concat (map (\<lambda>d. take (sz d * nmemb d) (ptr d) @ [CHR 0x00]) (deliveries two_chunks)) \<and>
    last (data two_chunks_response) = CHR 0x00"
    by blast
  with w ok send_two_chunks t ds p1 p2 d show ?thesis by blast
qed

text \<open>
  Claim C10 fails on the code. Its first and last parts hold, as shown above; the middle
  one, that the buffer handed to the parser is always terminated, needs the callback to
  have run. A transfer that succeeds without delivering a block (a response with no body)
  leaves \<open>response_data\<close> empty, and \<open>send\<close> passes the empty vector to the constructor
  whose own \<open>EWS_ASSERT(!data_.empty())\<close> forbids it: a build with assertions aborts, and a
  build without them returns a wrapper with no terminator in its buffer, on which
  \<open>payload()\<close> takes the address of \<open>data_[0]\<close> of an empty vector.
\<close>

theorem send_empty_transfer:
  "send release_build (stub_curl no_chunk) ''<m:Ping/>'' blank_request =
     Inr \<lparr>data = [], doc = [], code = 204, parsed = False\<rparr> \<and>
   payload release_build stub_parser \<lparr>data = [], doc = [], code = 204, parsed = False\<rparr> =
     (Inl Undefined, \<lparr>data = [], doc = [], code = 204, parsed = False\<rparr>) \<and>
   send checked_build (stub_curl no_chunk) ''<m:Ping/>'' blank_request = Inl Abort"
  by (simp add: send_def set_option_def curl_easy_setopt_def stub_curl_def release_build_def
      checked_build_def blank_request_def no_chunk_def curl_easy_perform_def CURLE_OK_def
      Let_def curl_easy_getinfo_response_code_def http_response_ctor_def EWS_ASSERT_def
      asserts_enabled_def payload_empty_buffer)

section \<open>Properties of the envelope composer\<close>

lemma foldl_stream: "foldl (\<lambda>stream header. stream @ header) acc hs = acc @ concat hs"
  by (induction hs arbitrary: acc) simp_all

lemma envelope_literal_spec: "envelope_literal = spec_xml_declaration @ spec_root_start_tag"
  by (simp add: envelope_literal_def spec_xml_declaration_def spec_root_start_tag_def
      spec_namespace_declarations_def)

lemma spec_envelope_stream:
  "spec_envelope soap_body soap_headers =
     envelope_literal @
     (if soap_headers \<noteq> [] then
        ''<soap:Header>'' @ [CHR 0x0A] @ concat soap_headers @ ''</soap:Header>'' @ [CHR 0x0A]
      else []) @
     ''<soap:Body>'' @ [CHR 0x0A] @ soap_body @ ''</soap:Body>'' @ [CHR 0x0A] @
     ''</soap:Envelope>'' @ [CHR 0x0A]"
  by (simp add: spec_envelope_def envelope_literal_spec spec_header_section_def
      spec_body_section_def)

text \<open>
  Claim C7. On a transport that starts a session and accepts every option,
  \<open>make_raw_soap_request\<close> is \<open>send\<close> of the envelope the specification describes, on a
  request that holds the URL, the POST method, the credentials and the content type: the
  string the code assembles in its stream is, character for character, the XML
  declaration, the root's start tag with the five namespace declarations, the header
  section (there exactly when the list of header fragments is not empty, holding the
  fragments in order), the body section around the body fragment, and the root's end tag.
  That string and its length are the \<open>CURLOPT_POSTFIELDS\<close> and \<open>CURLOPT_POSTFIELDSIZE\<close> of
  the handle the transfer runs on.
\<close>

theorem make_raw_soap_request_sends_envelope:
  assumes "easy_init lc" and "\<forall>option arg. easy_setopt lc option arg = CURLE_OK"
  shows "make_raw_soap_request cfg lc url username password domain soap_body soap_headers =
     send cfg lc (spec_envelope soap_body soap_headers)
       \<lparr>handle = [(CURLOPT_URL, c_str url), (CURLOPT_POST, long_val 1),
                  (CURLOPT_USERPWD, c_str (domain @ [CHR 0x5C] @ username @ '':'' @ password)),
                  (CURLOPT_HTTPAUTH, long_val CURLAUTH_NTLM)],
        headers = [''Content-Type: text/xml; charset=utf-8'']\<rparr> \<and>
   make_raw_soap_request cfg lc url username password domain soap_body soap_headers =
     (let h = [(CURLOPT_URL, c_str url), (CURLOPT_POST, long_val 1),
               (CURLOPT_USERPWD, c_str (domain @ [CHR 0x5C] @ username @ '':'' @ password)),
               (CURLOPT_HTTPAUTH, long_val CURLAUTH_NTLM)] @
              (if \<not> NDEBUG cfg then [(CURLOPT_VERBOSE, long_val 1)] else []) @
              [(CURLOPT_USERAGENT, c_str ''libcurl-agent/1.0''),
               (CURLOPT_POSTFIELDS, c_str (spec_envelope soap_body soap_headers)),
               (CURLOPT_POSTFIELDSIZE,
                  long_val (int (length (spec_envelope soap_body soap_headers)))),
               (CURLOPT_HTTPHEADER, slist [''Content-Type: text/xml; charset=utf-8'']),
               (CURLOPT_WRITEFUNCTION, callback_ptr),
               (CURLOPT_WRITEDATA, response_data_ptr)] @
              (if \<not> NDEBUG cfg then [(CURLOPT_SSL_VERIFYPEER, long_val 0)] else [])
      in case curl_easy_perform lc h \<lparr>elems = [], capacity = 0\<rparr> of
           Inl fl \<Rightarrow> Inl fl
         | Inr (retcode, response_data) \<Rightarrow>
             if retcode \<noteq> 0 then Inl (Throw (make_error lc ''curl_easy_perform'' retcode))
             else http_response_ctor cfg (curl_easy_getinfo_response_code lc h 0)
                    (elems response_data))"
proof -
  have first: "make_raw_soap_request cfg lc url username password domain soap_body soap_headers =
     send cfg lc (spec_envelope soap_body soap_headers)
       \<lparr>handle = [(CURLOPT_URL, c_str url), (CURLOPT_POST, long_val 1),
                  (CURLOPT_USERPWD, c_str (domain @ [CHR 0x5C] @ username @ '':'' @ password)),
                  (CURLOPT_HTTPAUTH, long_val CURLAUTH_NTLM)],
        headers = [''Content-Type: text/xml; charset=utf-8'']\<rparr>"
    using assms
    by (simp add: make_raw_soap_request_def spec_envelope_stream foldl_stream
        http_request_ctor_def curl_ptr_ctor_def set_method_def
        set_content_type_def set_credentials_def EWS_ASSERT_def set_option_def
        curl_easy_setopt_def Let_def)
  show ?thesis
    unfolding first using send_accepting [OF assms(2)] by simp
qed

theorem make_raw_soap_request_sends_envelope_witness:
  "easy_init (stub_curl two_chunks) \<and>
   (\<forall>option arg. easy_setopt (stub_curl two_chunks) option arg = CURLE_OK) \<and>
   make_raw_soap_request release_build (stub_curl two_chunks) ''https://example.test/ews''
      ''alice'' ''secret'' ''CORP'' ''<m:Foo/>'' [] =
     send release_build (stub_curl two_chunks)
       (envelope_literal @ ''<soap:Body>'' @ [CHR 0x0A] @ ''<m:Foo/></soap:Body>'' @ [CHR 0x0A] @
        ''</soap:Envelope>'' @ [CHR 0x0A])
       soap_request_record \<and>
   make_raw_soap_request release_build (stub_curl two_chunks) ''https://example.test/ews''
      ''alice'' ''secret'' ''CORP'' ''<m:Foo/>'' [''<t:Bar/>'', ''<t:Baz/>''] =
     send release_build (stub_curl two_chunks)
       (envelope_literal @ ''<soap:Header>'' @ [CHR 0x0A] @ ''<t:Bar/><t:Baz/></soap:Header>'' @
        [CHR 0x0A] @ ''<soap:Body>'' @ [CHR 0x0A] @ ''<m:Foo/></soap:Body>'' @ [CHR 0x0A] @
        ''</soap:Envelope>'' @ [CHR 0x0A])
       soap_request_record"
proof -
  have h1: "easy_init (stub_curl two_chunks)" by (simp add: stub_curl_def)
  have h2: "\<forall>option arg. easy_setopt (stub_curl two_chunks) option arg = CURLE_OK"
    by (simp add: stub_curl_def)
  from make_raw_soap_request_sends_envelope [OF h1 h2, of release_build
      "''https://example.test/ews''" "''alice''" "''secret''" "''CORP''" "''<m:Foo/>''" "[]"]
    make_raw_soap_request_sends_envelope [OF h1 h2, of release_build
      "''https://example.test/ews''" "''alice''" "''secret''" "''CORP''" "''<m:Foo/>''"
      "[''<t:Bar/>'', ''<t:Baz/>'']"]
    h1 h2
  show ?thesis
    by (simp add: spec_envelope_stream soap_request_record_def CURLAUTH_NTLM_def)
qed

end
